theory Spec2Isabelle
  imports Complex_Main
begin

section \<open>Cells, strings and dates\<close>

text \<open>
  A float cell of a frame is \<open>None\<close> when it is missing (NaN) and \<open>Some x\<close> otherwise; a
  finite float is read as the real number it denotes and float arithmetic as exact, so
  the development speaks about the order of operations, the comparisons and the
  defaults of the pipeline, not about binary rounding error. A string cell is \<open>None\<close>
  when it is \<open>pd.NA\<close>. Strings are ASCII texts.
\<close>

type_synonym float_cell = "real option"
type_synonym str_cell = "string option"

definition char_upper :: "char \<Rightarrow> char" where
  "char_upper c =
     (let n = (of_char c :: nat) in if 97 \<le> n \<and> n \<le> 122 then char_of (n - 32) else c)"

definition char_lower :: "char \<Rightarrow> char" where
  "char_lower c =
     (let n = (of_char c :: nat) in if 65 \<le> n \<and> n \<le> 90 then char_of (n + 32) else c)"

definition str_upper :: "string \<Rightarrow> string" where
  "str_upper s = map char_upper s"

definition str_lower :: "string \<Rightarrow> string" where
  "str_lower s = map char_lower s"

text \<open>The ASCII characters for which Python's \<open>str.isspace\<close> holds.\<close>

definition isspace :: "char \<Rightarrow> bool" where
  "isspace c = ((of_char c :: nat) \<in> {9, 10, 11, 12, 13, 28, 29, 30, 31, 32})"

definition str_strip :: "string \<Rightarrow> string" where
  "str_strip s = rev (dropWhile isspace (rev (dropWhile isspace s)))"

text \<open>
  \<open>datetime.date\<close>, with the proleptic Gregorian ordinal of Python's \<open>date.toordinal\<close>
  and the field-wise comparison of \<open>date.__gt__\<close>.
\<close>

record date =
  date_year :: int
  date_month :: int
  date_day :: int

definition is_leap :: "int \<Rightarrow> bool" where
  "is_leap y = (y mod 4 = 0 \<and> (y mod 100 \<noteq> 0 \<or> y mod 400 = 0))"

definition days_before_year :: "int \<Rightarrow> int" where
  "days_before_year y = (let p = y - 1 in p * 365 + p div 4 - p div 100 + p div 400)"

definition days_in_month :: "int \<Rightarrow> int \<Rightarrow> int" where
  "days_in_month y m =
     (if m = 2 then (if is_leap y then 29 else 28)
      else if m \<in> {4, 6, 9, 11} then 30 else 31)"

definition days_before_month :: "int \<Rightarrow> int \<Rightarrow> int" where
  "days_before_month y m = (\<Sum>k \<leftarrow> [1 ..< nat m]. days_in_month y (int k))"

definition toordinal :: "date \<Rightarrow> int" where
  "toordinal d =
     days_before_year (date_year d) + days_before_month (date_year d) (date_month d)
       + date_day d"

definition date_gt :: "date \<Rightarrow> date \<Rightarrow> bool" where
  "date_gt a b =
     (date_year a > date_year b
      \<or> (date_year a = date_year b
          \<and> (date_month a > date_month b
              \<or> (date_month a = date_month b \<and> date_day a > date_day b))))"

text \<open>
  A \<open>pd.Timestamp\<close>: a calendar date and the nanoseconds elapsed since its midnight.
\<close>

record timestamp =
  ts_date :: date
  ts_ns :: int

definition NS_PER_DAY :: int where
  "NS_PER_DAY = 86400 * 1000000000"

definition Timestamp :: "date \<Rightarrow> timestamp" where
  "Timestamp d = \<lparr>ts_date = d, ts_ns = 0\<rparr>"

text \<open>\<open>(a - b).days\<close>: the whole days of a time difference, rounded towards minus infinity.\<close>

definition timedelta_days :: "timestamp \<Rightarrow> timestamp \<Rightarrow> int" where
  "timedelta_days a b =
     ((toordinal (ts_date a) - toordinal (ts_date b)) * NS_PER_DAY + ts_ns a - ts_ns b)
       div NS_PER_DAY"

text \<open>
  A cell of a date column holds a \<open>date\<close> object, a string, or nothing. \<open>pd.to_datetime\<close>
  with \<open>errors="coerce"\<close> belongs to the pandas library, not to this repository: it is the
  parameter \<open>to_dt\<close> of every function that calls it, taking the \<open>dayfirst\<close> flag and the
  cell to the parsed timestamp, or to \<open>None\<close> where pandas yields \<open>NaT\<close>. A column is
  parsed cell by cell.
\<close>

datatype date_cell = DateObj date | DateStr string | NaT

type_synonym to_datetime = "bool \<Rightarrow> date_cell \<Rightarrow> timestamp option"

section \<open>Configuration (utils.py)\<close>

record SettingsConfig =
  input_raw_dir :: string
  output_processed_dir :: string
  date_format :: string
  aging_days_threshold :: int
  currency_expected :: string
  round_decimals :: int
  partition_by_year :: bool
  tolerance_small_delta_usd :: real

record RulesConfig =
  eligible_statuses :: "string list"
  shortage_required_flags :: "string list"
  use_strict_currency_check :: bool

section \<open>Frames\<close>

text \<open>
  A frame is the list of its rows. The columns are those the transformation, the
  shortage logic, the quality checks and the analytics read; the remaining columns of
  the ingested file are carried along untouched and are left out. The source computes
  whole columns at a time with elementwise operations; the model computes the same
  cells row by row (\<open>transform_row\<close>, \<open>shortage_row\<close>) and maps over the frame.
\<close>

record invoice =
  Invoice_Date :: date_cell
  Payment_Due_Date :: date_cell
  Invoice_Status :: str_cell
  Actual_Paid_Amount :: float_cell
  Paid_Amount_Currency :: str_cell
  Invoice_Creation_Date :: date_cell
  Randomized_Invoice :: str_cell
  Invoice_Amount :: float_cell
  Invoice_Currency :: str_cell
  Any_Deductions :: bool
  Randomized_Latest_Child_Invoice :: str_cell
  Randomized_PO :: str_cell

record transformed = invoice +
  Invoice_Delta :: float_cell
  Child_Invoice_Present :: bool
  Payment_Year :: "int option"

record flagged = transformed +
  Shortage_Flag :: bool
  Shortage_Amount_USD :: float_cell
  Days_Past_Due :: int
  Age_Bucket :: string

section \<open>Series operations\<close>

definition fillna :: "'a \<Rightarrow> 'a option \<Rightarrow> 'a option" where
  "fillna v c = (case c of None \<Rightarrow> Some v | Some x \<Rightarrow> Some x)"

definition float_sub :: "float_cell \<Rightarrow> float_cell \<Rightarrow> float_cell" where
  "float_sub a b =
     (case a of None \<Rightarrow> None | Some x \<Rightarrow> (case b of None \<Rightarrow> None | Some y \<Rightarrow> Some (x - y)))"

text \<open>\<open>Series.round\<close> rounds halves to the even neighbour, at the given decimal place.\<close>

definition round_half_even :: "real \<Rightarrow> int" where
  "round_half_even x =
     (let f = \<lfloor>x\<rfloor>; r = x - of_int f
      in if r < 1 / 2 then f else if 1 / 2 < r then f + 1
         else if even f then f else f + 1)"

definition round_decimal :: "int \<Rightarrow> real \<Rightarrow> real" where
  "round_decimal decimals x =
     (if 0 \<le> decimals
      then of_int (round_half_even (x * 10 ^ nat decimals)) / 10 ^ nat decimals
      else of_int (round_half_even (x / 10 ^ nat (- decimals))) * 10 ^ nat (- decimals))"

definition series_round :: "int \<Rightarrow> float_cell \<Rightarrow> float_cell" where
  "series_round decimals c = map_option (round_decimal decimals) c"

text \<open>A comparison with a missing value is false.\<close>

definition float_gt :: "float_cell \<Rightarrow> real \<Rightarrow> bool" where
  "float_gt c t = (case c of None \<Rightarrow> False | Some x \<Rightarrow> x > t)"

definition isin :: "str_cell \<Rightarrow> string set \<Rightarrow> bool" where
  "isin c S = (case c of None \<Rightarrow> False | Some s \<Rightarrow> s \<in> S)"

section \<open>transform.py\<close>

definition dayfirst_setting :: "SettingsConfig \<Rightarrow> bool" where
  "dayfirst_setting settings =
     (str_lower (date_format settings) \<in> {''dayfirst'', ''dd/mm/yyyy''})"

text \<open>The local \<open>payment_due\<close> of \<open>transform_invoices\<close>, for one row.\<close>

definition transform_payment_due ::
  "to_datetime \<Rightarrow> SettingsConfig \<Rightarrow> date_cell \<Rightarrow> timestamp option" where
  "transform_payment_due to_dt settings c = to_dt (dayfirst_setting settings) c"

definition child_invoice_present :: "str_cell \<Rightarrow> bool" where
  "child_invoice_present c = (fillna '''' (map_option str_strip c) \<noteq> Some '''')"

definition transform_row :: "to_datetime \<Rightarrow> SettingsConfig \<Rightarrow> invoice \<Rightarrow> transformed" where
  "transform_row to_dt settings r =
     (let amount = fillna 0 (Invoice_Amount r);
          paid = fillna 0 (Actual_Paid_Amount r);
          delta = series_round (round_decimals settings) (float_sub amount paid);
          child = child_invoice_present (Randomized_Latest_Child_Invoice r);
          payment_due = transform_payment_due to_dt settings (Payment_Due_Date r)
      in invoice.extend (r\<lparr>Invoice_Amount := amount, Actual_Paid_Amount := paid\<rparr>)
           (transformed.fields delta child (map_option (\<lambda>t. date_year (ts_date t)) payment_due)))"

definition transform_invoices ::
  "to_datetime \<Rightarrow> SettingsConfig \<Rightarrow> invoice list \<Rightarrow> transformed list" where
  "transform_invoices to_dt settings df = map (transform_row to_dt settings) df"

section \<open>shortage\_logic.py\<close>

definition shortage_condition :: "SettingsConfig \<Rightarrow> RulesConfig \<Rightarrow> transformed \<Rightarrow> bool" where
  "shortage_condition settings rules r =
     (let tolerance = tolerance_small_delta_usd settings;
          normalized_status = map_option str_upper (Invoice_Status r);
          allowed_statuses = set (eligible_statuses rules)
      in float_gt (Invoice_Delta r) tolerance
         \<and> (Any_Deductions r \<or> Child_Invoice_Present r)
         \<and> isin normalized_status allowed_statuses)"

text \<open>The local \<open>payment_due\<close> of \<open>apply_shortage_logic\<close>, for one row.\<close>

definition shortage_payment_due :: "to_datetime \<Rightarrow> date_cell \<Rightarrow> timestamp option" where
  "shortage_payment_due to_dt c = to_dt True c"

definition days_past_due :: "to_datetime \<Rightarrow> date \<Rightarrow> date_cell \<Rightarrow> int" where
  "days_past_due to_dt today c =
     (let payment_due = shortage_payment_due to_dt c;
          today_value = Timestamp today;
          days = map_option (\<lambda>t. timedelta_days today_value t) payment_due;
          clipped = map_option (\<lambda>d. max d 0) days
      in case clipped of None \<Rightarrow> 0 | Some d \<Rightarrow> d)"

definition age_bucket :: "SettingsConfig \<Rightarrow> int \<Rightarrow> string" where
  "age_bucket settings days =
     (if days > aging_days_threshold settings then ''Aged'' else ''Current'')"

definition shortage_row ::
  "to_datetime \<Rightarrow> SettingsConfig \<Rightarrow> RulesConfig \<Rightarrow> date \<Rightarrow> transformed \<Rightarrow> flagged" where
  "shortage_row to_dt settings rules today r =
     (let cond = shortage_condition settings rules r;
          amount = (if cond then Invoice_Delta r else Some 0);
          days = days_past_due to_dt today (Payment_Due_Date r)
      in transformed.extend r (flagged.fields cond amount days (age_bucket settings days)))"

definition apply_shortage_logic ::
  "to_datetime \<Rightarrow> SettingsConfig \<Rightarrow> RulesConfig \<Rightarrow> date \<Rightarrow> transformed list \<Rightarrow> flagged list" where
  "apply_shortage_logic to_dt settings rules today df =
     map (shortage_row to_dt settings rules today) df"

section \<open>quality.py\<close>

text \<open>
  A run of the checks either returns or raises. The exceptions are the \<open>ValueError\<close>s
  of the module, with their messages, and the \<open>SchemaErrors\<close> of a lazy schema
  validation, with the failing column and row index of each case.
\<close>

datatype error = ValueError string | SchemaErrors "(string \<times> nat) list"

text \<open>
  Every function of the module is given the frame and hands back, next to its outcome,
  the frame as it leaves it, so that what the checks do to the caller's frame is part of
  the model.
\<close>

type_synonym 'a frame_op = "flagged list \<Rightarrow> (error + 'a) \<times> flagged list"

definition column_failures :: "string \<Rightarrow> ('r \<Rightarrow> bool) \<Rightarrow> 'r list \<Rightarrow> (string \<times> nat) list" where
  "column_failures name bad df = map (\<lambda>i. (name, i)) (filter (\<lambda>i. bad (df ! i)) [0 ..< length df])"

definition isnull :: "'a option \<Rightarrow> bool" where
  "isnull c = (c = None)"

definition violates_ge0 :: "float_cell \<Rightarrow> bool" where
  "violates_ge0 c = (case c of None \<Rightarrow> True | Some x \<Rightarrow> \<not> (x \<ge> 0))"

text \<open>
  The schema of \<open>_build_schema\<close>: every column with the test a cell fails. No column
  but \<open>Payment_Year\<close> is nullable, and both amounts and \<open>Days_Past_Due\<close> are checked to
  be at least zero. The dtype of a column is the type of its field, so a column whose
  field has no missing value cannot fail. The private functions of the module appear
  without their leading underscore.
\<close>

type_synonym schema = "(string \<times> (flagged \<Rightarrow> bool)) list"

definition build_schema :: "SettingsConfig \<Rightarrow> schema" where
  "build_schema settings =
     [(''Invoice Date'', \<lambda>r. Invoice_Date r = NaT),
      (''Payment Due Date'', \<lambda>r. Payment_Due_Date r = NaT),
      (''Invoice Status'', \<lambda>r. isnull (Invoice_Status r)),
      (''Actual Paid Amount'', \<lambda>r. violates_ge0 (Actual_Paid_Amount r)),
      (''Paid Amount Currency'', \<lambda>r. isnull (Paid_Amount_Currency r)),
      (''Invoice Creation Date'', \<lambda>r. Invoice_Creation_Date r = NaT),
      (''Randomized Invoice'', \<lambda>r. isnull (Randomized_Invoice r)),
      (''Invoice Amount'', \<lambda>r. violates_ge0 (Invoice_Amount r)),
      (''Invoice Currency'', \<lambda>r. isnull (Invoice_Currency r)),
      (''Any Deductions'', \<lambda>r. False),
      (''Randomized PO'', \<lambda>r. isnull (Randomized_PO r)),
      (''Invoice_Delta'', \<lambda>r. isnull (Invoice_Delta r)),
      (''Child_Invoice_Present'', \<lambda>r. False),
      (''Payment_Year'', \<lambda>r. False),
      (''Shortage_Flag'', \<lambda>r. False),
      (''Shortage_Amount_USD'', \<lambda>r. isnull (Shortage_Amount_USD r)),
      (''Days_Past_Due'', \<lambda>r. \<not> (Days_Past_Due r \<ge> 0)),
      (''Age_Bucket'', \<lambda>r. False)]"

text \<open>\<open>schema.validate(df, lazy=True)\<close>: all failure cases are collected, then raised together.\<close>

definition schema_validate :: "schema \<Rightarrow> unit frame_op" where
  "schema_validate schema df =
     (let failures = concat (map (\<lambda>(name, bad). column_failures name bad df) schema)
      in if failures \<noteq> [] then (Inl (SchemaErrors failures), df) else (Inr (), df))"

definition str_eq :: "str_cell \<Rightarrow> string \<Rightarrow> bool" where
  "str_eq c s = (case c of None \<Rightarrow> False | Some x \<Rightarrow> x = s)"

definition validate_currency :: "string \<Rightarrow> unit frame_op" where
  "validate_currency expected_currency df =
     (let expected_upper = str_upper expected_currency;
          paid_valid = map (\<lambda>r. str_eq (map_option str_upper (Paid_Amount_Currency r)) expected_upper) df;
          invoice_valid = map (\<lambda>r. str_eq (map_option str_upper (Invoice_Currency r)) expected_upper) df
      in if \<not> list_all (\<lambda>(p, i). p \<and> i) (zip paid_valid invoice_valid)
         then (Inl (ValueError ''Non-compliant currency detected during quality checks.''), df)
         else (Inr (), df))"

text \<open>One round of the loop of \<open>_validate_dates\<close>: a column, by its name and its cells.\<close>

definition validate_date_column ::
  "to_datetime \<Rightarrow> date \<Rightarrow> string \<Rightarrow> date_cell list \<Rightarrow> error + unit" where
  "validate_date_column to_dt today_value column cells =
     (let parsed = map (to_dt False) cells
      in if list_ex (\<lambda>p. p = None) parsed
         then Inl (ValueError (''Invalid date values found in column '' @ column))
         else if list_ex (\<lambda>p. case p of None \<Rightarrow> False | Some t \<Rightarrow> date_gt (ts_date t) today_value) parsed
         then Inl (ValueError (''Future-dated values found in column '' @ column))
         else Inr ())"

fun validate_date_columns ::
  "to_datetime \<Rightarrow> date \<Rightarrow> (string \<times> (flagged \<Rightarrow> date_cell)) list \<Rightarrow> unit frame_op" where
  "validate_date_columns to_dt today_value [] df = (Inr (), df)"
| "validate_date_columns to_dt today_value ((column, sel) # columns) df =
     (case validate_date_column to_dt today_value column (map sel df) of
        Inl e \<Rightarrow> (Inl e, df)
      | Inr u \<Rightarrow> validate_date_columns to_dt today_value columns df)"

definition validate_dates :: "to_datetime \<Rightarrow> date \<Rightarrow> unit frame_op" where
  "validate_dates to_dt today df =
     validate_date_columns to_dt today
       [(''Invoice Date'', Invoice_Date), (''Payment Due Date'', Payment_Due_Date),
        (''Invoice Creation Date'', Invoice_Creation_Date)] df"

definition run_quality_checks ::
  "to_datetime \<Rightarrow> SettingsConfig \<Rightarrow> RulesConfig \<Rightarrow> date \<Rightarrow> unit frame_op" where
  "run_quality_checks to_dt settings rules today df =
     (if df = [] then (Inl (ValueError ''Quality check failed: dataframe is empty.''), df)
      else case schema_validate (build_schema settings) df of
        (Inl e, df1) \<Rightarrow> (Inl e, df1)
      | (Inr u, df1) \<Rightarrow>
          (case validate_currency (currency_expected settings) df1 of
             (Inl e, df2) \<Rightarrow> (Inl e, df2)
           | (Inr u, df2) \<Rightarrow> validate_dates to_dt today df2))"

section \<open>analytics.py\<close>













section \<open>A model of the date parser\<close>

text \<open>
  The behaviour of \<open>pd.to_datetime\<close> on the cells the examples below use, after the
  library's documentation: a \<open>date\<close> object is its own midnight; a string of three
  decimal fields \<open>a/b/yyyy\<close> is read with the day first when \<open>dayfirst\<close> is set and with
  the month first otherwise, and the other way round when the preferred reading is not a
  calendar date; a missing cell is \<open>NaT\<close>. Strings of any other shape are not covered and
  are mapped to \<open>NaT\<close>. The general theorems below hold for every parser and do not use
  this model.
\<close>

definition digit_val :: "char \<Rightarrow> nat option" where
  "digit_val c =
     (let n = (of_char c :: nat) in if 48 \<le> n \<and> n \<le> 57 then Some (n - 48) else None)"

fun decimal_acc :: "nat \<Rightarrow> string \<Rightarrow> nat option" where
  "decimal_acc acc [] = Some acc"
| "decimal_acc acc (c # cs) =
     (case digit_val c of None \<Rightarrow> None | Some d \<Rightarrow> decimal_acc (10 * acc + d) cs)"

definition decimal :: "string \<Rightarrow> nat option" where
  "decimal s = (if s = [] then None else decimal_acc 0 s)"

fun split_on :: "char \<Rightarrow> string \<Rightarrow> string list" where
  "split_on sep [] = [[]]"
| "split_on sep (c # cs) =
     (if c = sep then [] # split_on sep cs
      else (case split_on sep cs of [] \<Rightarrow> [[c]] | w # ws \<Rightarrow> (c # w) # ws))"

definition valid_date :: "int \<Rightarrow> int \<Rightarrow> int \<Rightarrow> bool" where
  "valid_date y m d = (1 \<le> y \<and> 1 \<le> m \<and> m \<le> 12 \<and> 1 \<le> d \<and> d \<le> days_in_month y m)"

definition parse_slash_date :: "bool \<Rightarrow> string \<Rightarrow> date option" where
  "parse_slash_date dayfirst s =
     (case split_on CHR ''/'' s of
        [fa, fb, fy] \<Rightarrow>
          (if length fa \<le> 2 \<and> length fb \<le> 2 \<and> length fy = 4 then
             (case (decimal fa, decimal fb, decimal fy) of
                (Some a, Some b, Some y) \<Rightarrow>
                  (let day_first = \<lparr>date_year = int y, date_month = int b, date_day = int a\<rparr>;
                       month_first = \<lparr>date_year = int y, date_month = int a, date_day = int b\<rparr>;
                       day_first_ok = valid_date (int y) (int b) (int a);
                       month_first_ok = valid_date (int y) (int a) (int b)
                   in if dayfirst
                      then (if day_first_ok then Some day_first
                            else if month_first_ok then Some month_first else None)
                      else (if month_first_ok then Some month_first
                            else if day_first_ok then Some day_first else None))
              | _ \<Rightarrow> None)
           else None)
      | _ \<Rightarrow> None)"

definition to_datetime_model :: to_datetime where
  "to_datetime_model dayfirst c =
     (case c of
        DateObj d \<Rightarrow> Some (Timestamp d)
      | DateStr s \<Rightarrow> map_option Timestamp (parse_slash_date dayfirst s)
      | NaT \<Rightarrow> None)"

section \<open>Test data\<close>

text \<open>
  The configuration of the repository's tests, a fixed day standing for \<open>date.today()\<close>,
  and a small batch of invoices: an underpaid one a hundred days overdue with a
  lower-case status, one underpaid by exactly the tolerance, an overpaid one with a blank
  child invoice, a settled one overdue since January, one due on the day after the fixed
  day, and one without amounts or due date.
\<close>

definition test_settings :: SettingsConfig where
  "test_settings =
     \<lparr>input_raw_dir = ''data/raw'', output_processed_dir = ''data/processed'',
      date_format = ''dayfirst'', aging_days_threshold = 90, currency_expected = ''USD'',
      round_decimals = 2, partition_by_year = True, tolerance_small_delta_usd = 1 / 100\<rparr>"

definition test_rules :: RulesConfig where
  "test_rules =
     \<lparr>eligible_statuses =
        [''PAID'', ''PAID_PRICE_DISCREPANCY'', ''PROCESSING_PENDING_AMAZON_ACTION'',
         ''QUEUED_FOR_PAYMENT''],
      shortage_required_flags = [''Any Deductions'', ''Child_Invoice_Present''],
      use_strict_currency_check = True\<rparr>"

definition ymd :: "int \<Rightarrow> int \<Rightarrow> int \<Rightarrow> date" where
  "ymd y m d = \<lparr>date_year = y, date_month = m, date_day = d\<rparr>"

definition test_today :: date where
  "test_today = ymd 2024 6 1"

definition test_invoice ::
  "string \<Rightarrow> date_cell \<Rightarrow> string \<Rightarrow> float_cell \<Rightarrow> float_cell \<Rightarrow> bool \<Rightarrow> str_cell \<Rightarrow> invoice" where
  "test_invoice ident due status amount paid deductions child =
     \<lparr>Invoice_Date = DateObj (ymd 2023 1 10), Payment_Due_Date = due,
      Invoice_Status = Some status, Actual_Paid_Amount = paid,
      Paid_Amount_Currency = Some ''USD'', Invoice_Creation_Date = DateObj (ymd 2023 1 5),
      Randomized_Invoice = Some ident, Invoice_Amount = amount,
      Invoice_Currency = Some ''usd'', Any_Deductions = deductions,
      Randomized_Latest_Child_Invoice = child, Randomized_PO = Some ''PO-123''\<rparr>"

definition test_invoices :: "invoice list" where
  "test_invoices =
     [test_invoice ''INV-1'' (DateObj (ymd 2024 2 22)) ''paid'' (Some 105) (Some 100) True None,
      test_invoice ''INV-2'' (DateObj (ymd 2024 5 22)) ''PAID'' (Some (10001 / 100)) (Some 100)
        True None,
      test_invoice ''INV-3'' (DateObj (ymd 2023 3 4)) ''PAID'' (Some 90) (Some 100) False
        (Some ''  ''),
      test_invoice ''INV-4'' (DateObj (ymd 2024 1 15)) ''PAID'' (Some 50) (Some 50) False
        (Some '' CHILD-123 ''),
      test_invoice ''INV-5'' (DateObj (ymd 2024 6 2)) ''CLOSED'' (Some 120) (Some (22999 / 200))
        True None,
      test_invoice ''INV-6'' NaT ''PAID'' None None False None]"

definition test_transformed :: "transformed list" where
  "test_transformed = transform_invoices to_datetime_model test_settings test_invoices"

definition test_flagged :: "flagged list" where
  "test_flagged =
     apply_shortage_logic to_datetime_model test_settings test_rules test_today test_transformed"


text \<open>
  A month-first configuration and an invoice whose due date is still the string of the
  source file.
\<close>

definition monthfirst_settings :: SettingsConfig where
  "monthfirst_settings = test_settings\<lparr>date_format := ''monthfirst''\<rparr>"

definition slash_invoice :: invoice where
  "slash_invoice =
     test_invoice ''INV-7'' (DateStr ''03/04/2024'') ''PAID'' (Some 105) (Some 100) True None"

definition slash_today :: date where
  "slash_today = ymd 2024 6 3"

section \<open>Rows of the transformed and the evaluated frame\<close>

lemma transform_row_sel:
  "Invoice_Delta (transform_row to_dt st r) =
     series_round (round_decimals st)
       (float_sub (fillna 0 (Invoice_Amount r)) (fillna 0 (Actual_Paid_Amount r)))"
  "Child_Invoice_Present (transform_row to_dt st r) =
     child_invoice_present (Randomized_Latest_Child_Invoice r)"
  "Payment_Year (transform_row to_dt st r) =
     map_option (\<lambda>t. date_year (ts_date t)) (transform_payment_due to_dt st (Payment_Due_Date r))"
  by (simp_all add: transform_row_def Let_def invoice.defs transformed.defs)

lemma shortage_row_sel:
  "Shortage_Flag (shortage_row to_dt st rl today r) = shortage_condition st rl r"
  "Shortage_Amount_USD (shortage_row to_dt st rl today r) =
     (if shortage_condition st rl r then Invoice_Delta r else Some 0)"
  "Days_Past_Due (shortage_row to_dt st rl today r) =
     days_past_due to_dt today (Payment_Due_Date r)"
  "Age_Bucket (shortage_row to_dt st rl today r) =
     age_bucket st (days_past_due to_dt today (Payment_Due_Date r))"
  "Invoice_Delta (shortage_row to_dt st rl today r) = Invoice_Delta r"
  by (simp_all add: shortage_row_def Let_def transformed.defs flagged.defs)

lemma days_past_due_eq:
  "days_past_due to_dt today c =
     (case to_dt True c of None \<Rightarrow> 0 | Some t \<Rightarrow> max (timedelta_days (Timestamp today) t) 0)"
  by (simp add: days_past_due_def shortage_payment_due_def Let_def split: option.splits)

lemma days_past_due_nonneg: "0 \<le> days_past_due to_dt today c"
  by (simp add: days_past_due_eq split: option.splits)


lemma str_strip_empty_iff: "str_strip s = [] \<longleftrightarrow> (\<forall>c \<in> set s. isspace c)"
proof (cases "dropWhile isspace s")
  case Nil
  then have "\<forall>c \<in> set s. isspace c" by (simp add: dropWhile_eq_Nil_conv)
  moreover have "str_strip s = []" unfolding str_strip_def Nil by simp
  ultimately show ?thesis by simp
next
  case (Cons x xs)
  then have "\<not> isspace x"
    by (metis hd_dropWhile list.sel(1) list.distinct(1))
  moreover have "x \<in> set s"
    by (metis Cons list.set_intros(1) set_dropWhileD)
  ultimately show ?thesis
    using Cons by (auto simp: str_strip_def dropWhile_eq_Nil_conv)
qed

lemma child_invoice_present_iff:
  "child_invoice_present c \<longleftrightarrow> (\<exists>s. c = Some s \<and> str_strip s \<noteq> [])"
  by (cases c) (simp_all add: child_invoice_present_def fillna_def)

lemma test_lengths:
  "length test_invoices = 6" "length test_transformed = 6" "length test_flagged = 6"
  by (simp_all add: test_flagged_def test_transformed_def test_invoices_def
        apply_shortage_logic_def transform_invoices_def)

section \<open>The shortage rule\<close>

text \<open>
  Claim C1. In the frame that \<open>apply_shortage_logic\<close> returns, the shortage flag of a
  record is true if and only if its delta is present and strictly greater than the
  configured tolerance, it has deductions or a child invoice, and its status, in upper
  case, is one of the eligible statuses. A record whose delta equals the tolerance is
  therefore never flagged.
\<close>

theorem shortage_flag_iff:
  "map Shortage_Flag (apply_shortage_logic to_dt settings rules today df) =
     map (\<lambda>r. (\<exists>delta. Invoice_Delta r = Some delta \<and> delta > tolerance_small_delta_usd settings)
               \<and> (Any_Deductions r \<or> Child_Invoice_Present r)
               \<and> (\<exists>status. Invoice_Status r = Some status
                     \<and> str_upper status \<in> set (eligible_statuses rules))) df
   \<and> (\<forall>i < length df. Invoice_Delta (df ! i) = Some (tolerance_small_delta_usd settings)
         \<longrightarrow> \<not> Shortage_Flag (apply_shortage_logic to_dt settings rules today df ! i))"
  by (auto simp: apply_shortage_logic_def shortage_row_sel shortage_condition_def Let_def
        float_gt_def isin_def split: option.splits)

text \<open>
  On the test batch only the first invoice is flagged; the second, underpaid by exactly
  the tolerance of one cent, is not, although it has deductions and an eligible status.
\<close>

theorem shortage_flag_iff_witness:
  "1 < length test_transformed
   \<and> Invoice_Delta (test_transformed ! 1) = Some (tolerance_small_delta_usd test_settings)
   \<and> Any_Deductions (test_transformed ! 1)
   \<and> \<not> Shortage_Flag (test_flagged ! 1)
   \<and> map Shortage_Flag test_flagged = [True, False, False, False, False, False]"
proof -
  have len: "1 < length test_transformed" by (simp add: test_lengths)
  have delta: "Invoice_Delta (test_transformed ! 1) = Some (tolerance_small_delta_usd test_settings)"
    by code_simp
  have ded: "Any_Deductions (test_transformed ! 1)" by code_simp
  have flags: "map Shortage_Flag test_flagged = [True, False, False, False, False, False]"
    by code_simp
  have "\<not> Shortage_Flag (test_flagged ! 1)"
    using shortage_flag_iff [of to_datetime_model test_settings test_rules test_today
        test_transformed] len delta
    by (simp add: test_flagged_def)
  with len delta ded flags show ?thesis by simp
qed

text \<open>
  Claim C2. Every record of the evaluated frame has a shortage amount equal to its
  delta when it is flagged and equal to zero when it is not, whatever the sign of the
  delta; the amount is the delta itself, not an approximation of it.
\<close>

theorem shortage_amount_exact:
  "\<forall>r \<in> set (apply_shortage_logic to_dt settings rules today df).
     Shortage_Amount_USD r = (if Shortage_Flag r then Invoice_Delta r else Some 0)"
  by (auto simp: apply_shortage_logic_def shortage_row_sel)

theorem shortage_amount_exact_witness:
  "test_flagged ! 0 \<in> set test_flagged \<and> Shortage_Flag (test_flagged ! 0)
   \<and> Shortage_Amount_USD (test_flagged ! 0) = Invoice_Delta (test_flagged ! 0)
   \<and> test_flagged ! 2 \<in> set test_flagged \<and> \<not> Shortage_Flag (test_flagged ! 2)
   \<and> Invoice_Delta (test_flagged ! 2) = Some (- 10)
   \<and> Shortage_Amount_USD (test_flagged ! 2) = Some 0"
proof -
  have in0: "test_flagged ! 0 \<in> set test_flagged" and in2: "test_flagged ! 2 \<in> set test_flagged"
    by (simp_all add: test_lengths)
  have f0: "Shortage_Flag (test_flagged ! 0)" and f2: "\<not> Shortage_Flag (test_flagged ! 2)"
    and d2: "Invoice_Delta (test_flagged ! 2) = Some (- 10)"
    by code_simp+
  note all = shortage_amount_exact [of to_datetime_model test_settings test_rules test_today
      test_transformed, folded test_flagged_def]
  have "Shortage_Amount_USD (test_flagged ! 0) = Invoice_Delta (test_flagged ! 0)"
    using all in0 f0 by simp
  moreover have "Shortage_Amount_USD (test_flagged ! 2) = Some 0"
    using all in2 f2 by simp
  ultimately show ?thesis using in0 in2 f0 f2 d2 by simp
qed

text \<open>
  Claim C3. In the evaluated frame the days past due of every record are a non-negative
  integer: zero when the due date does not parse, and otherwise the whole days from the
  due date to today, with a negative difference replaced by zero. The age bucket is
  \<open>Aged\<close> exactly when the days past due are strictly greater than the configured
  threshold, and \<open>Current\<close> otherwise.
\<close>

theorem days_past_due_and_age_bucket:
  "\<forall>i < length df.
     (let r = apply_shortage_logic to_dt settings rules today df ! i
      in 0 \<le> Days_Past_Due r
         \<and> Days_Past_Due r =
             (case to_dt True (Payment_Due_Date (df ! i)) of
                None \<Rightarrow> 0
              | Some due \<Rightarrow> max (timedelta_days (Timestamp today) due) 0)
         \<and> (Age_Bucket r = ''Aged'' \<longleftrightarrow> Days_Past_Due r > aging_days_threshold settings)
         \<and> (Age_Bucket r \<noteq> ''Aged'' \<longrightarrow> Age_Bucket r = ''Current''))"
  using days_past_due_nonneg [of to_dt today]
  by (simp add: apply_shortage_logic_def shortage_row_sel Let_def age_bucket_def
        days_past_due_eq)

text \<open>
  On the test batch: a hundred days overdue is aged, ten days is current, a due date
  one day ahead clips to zero, and a missing due date counts as zero days.
\<close>

theorem days_past_due_and_age_bucket_witness:
  "4 < length test_transformed
   \<and> to_datetime_model True (Payment_Due_Date (test_transformed ! 4)) = Some (Timestamp (ymd 2024 6 2))
   \<and> timedelta_days (Timestamp test_today) (Timestamp (ymd 2024 6 2)) = - 1
   \<and> Days_Past_Due (test_flagged ! 4) = 0
   \<and> Age_Bucket (test_flagged ! 4) = ''Current''
   \<and> map Days_Past_Due test_flagged = [100, 10, 455, 138, 0, 0]
   \<and> map Age_Bucket test_flagged = [''Aged'', ''Current'', ''Aged'', ''Aged'', ''Current'', ''Current'']"
proof -
  have len: "4 < length test_transformed" by (simp add: test_lengths)
  have due: "to_datetime_model True (Payment_Due_Date (test_transformed ! 4))
               = Some (Timestamp (ymd 2024 6 2))"
    by code_simp
  have diff: "timedelta_days (Timestamp test_today) (Timestamp (ymd 2024 6 2)) = - 1"
    by code_simp
  have thr: "aging_days_threshold test_settings = 90" by (simp add: test_settings_def)
  have days: "map Days_Past_Due test_flagged = [100, 10, 455, 138, 0, 0]" by code_simp
  have buckets: "map Age_Bucket test_flagged
                   = [''Aged'', ''Current'', ''Aged'', ''Aged'', ''Current'', ''Current'']"
    by code_simp
  have "Days_Past_Due (test_flagged ! 4) = 0 \<and> Age_Bucket (test_flagged ! 4) = ''Current''"
    using days_past_due_and_age_bucket [of test_transformed to_datetime_model test_settings
        test_rules test_today, folded test_flagged_def] len due diff thr
    by (auto simp: Let_def)
  with len due diff days buckets show ?thesis by simp
qed

section \<open>The transformation\<close>



text \<open>
  Claim C5. In the transformed frame, \<open>Child_Invoice_Present\<close> is true exactly for the
  records whose child-invoice field is present and, once stripped of surrounding
  whitespace, not empty. A record whose field is missing or holds only whitespace has
  the value false.
\<close>

theorem child_invoice_present_trimmed:
  "map Child_Invoice_Present (transform_invoices to_dt settings df) =
     map (\<lambda>r. \<exists>s. Randomized_Latest_Child_Invoice r = Some s \<and> str_strip s \<noteq> []) df
   \<and> (\<forall>i < length df.
         (\<forall>s. Randomized_Latest_Child_Invoice (df ! i) = Some s \<longrightarrow> (\<forall>c \<in> set s. isspace c))
         \<longrightarrow> \<not> Child_Invoice_Present (transform_invoices to_dt settings df ! i))"
  by (auto simp: transform_invoices_def transform_row_sel child_invoice_present_iff
        str_strip_empty_iff)

text \<open>
  On the test batch the third invoice has a child field of two blanks and the fourth a
  padded identifier; only the fourth has a child invoice.
\<close>

theorem child_invoice_present_trimmed_witness:
  "2 < length test_invoices
   \<and> Randomized_Latest_Child_Invoice (test_invoices ! 2) = Some ''  ''
   \<and> list_all isspace ''  ''
   \<and> \<not> Child_Invoice_Present (test_transformed ! 2)
   \<and> str_strip '' CHILD-123 '' = ''CHILD-123''
   \<and> map Child_Invoice_Present test_transformed = [False, False, False, True, False, False]"
proof -
  have len: "2 < length test_invoices" by (simp add: test_lengths)
  have cell: "Randomized_Latest_Child_Invoice (test_invoices ! 2) = Some ''  ''" by code_simp
  have blanks: "list_all isspace ''  ''" by code_simp
  then have blank: "\<forall>c \<in> set ''  ''. isspace c" unfolding list_all_iff .
  have strip: "str_strip '' CHILD-123 '' = ''CHILD-123''" by code_simp
  have col: "map Child_Invoice_Present test_transformed
               = [False, False, False, True, False, False]"
    by code_simp
  have "\<not> Child_Invoice_Present (test_transformed ! 2)"
    using child_invoice_present_trimmed [of to_datetime_model test_settings test_invoices]
      len cell blank
    by (simp add: test_transformed_def)
  with len cell blanks strip col show ?thesis by simp
qed

section \<open>The quality checks\<close>

lemma schema_validate_frame: "snd (schema_validate schema df) = df"
  by (simp add: schema_validate_def Let_def)

lemma validate_currency_frame: "snd (validate_currency expected df) = df"
  by (simp add: validate_currency_def Let_def)

lemma validate_date_columns_frame: "snd (validate_date_columns to_dt today cols df) = df"
  by (induction cols) (auto split: sum.splits)

lemma validate_dates_frame: "snd (validate_dates to_dt today df) = df"
  unfolding validate_dates_def by (rule validate_date_columns_frame)

lemma validate_date_column_raises:
  assumes "\<exists>c \<in> set cells. (case to_dt False c of None \<Rightarrow> True | Some t \<Rightarrow> date_gt (ts_date t) today)"
  shows "\<exists>e. validate_date_column to_dt today column cells = Inl e"
proof (cases "\<exists>c \<in> set cells. to_dt False c = None")
  case True
  then have "list_ex (\<lambda>p. p = None) (map (to_dt False) cells)"
    by (force simp: list_ex_iff image_iff)
  then show ?thesis
    by (simp add: validate_date_column_def Let_def)
next
  case False
  with assms obtain c t where c: "c \<in> set cells" "to_dt False c = Some t" "date_gt (ts_date t) today"
    by (fastforce split: option.splits)
  have "\<exists>p \<in> set (map (to_dt False) cells).
          (case p of None \<Rightarrow> False | Some t \<Rightarrow> date_gt (ts_date t) today)"
  proof (rule bexI [where x = "Some t"])
    show "case Some t of None \<Rightarrow> False | Some t \<Rightarrow> date_gt (ts_date t) today"
      using c(3) by simp
    show "Some t \<in> set (map (to_dt False) cells)"
      using c(1,2) by (metis image_eqI set_map)
  qed
  then have "list_ex (\<lambda>p. case p of None \<Rightarrow> False | Some t \<Rightarrow> date_gt (ts_date t) today)
               (map (to_dt False) cells)"
    unfolding list_ex_iff .
  then show ?thesis
    by (simp add: validate_date_column_def Let_def)
qed

lemma validate_date_columns_raises:
  assumes "\<exists>(column, sel) \<in> set cols. \<exists>r \<in> set df.
             (case to_dt False (sel r) of None \<Rightarrow> True | Some t \<Rightarrow> date_gt (ts_date t) today)"
  shows "\<exists>e. fst (validate_date_columns to_dt today cols df) = Inl e"
  using assms
proof (induction cols)
  case Nil
  then show ?case by simp
next
  case (Cons a cols)
  obtain column sel where a: "a = (column, sel)" by (cases a)
  show ?case
  proof (cases "validate_date_column to_dt today column (map sel df)")
    case (Inl e)
    then show ?thesis by (simp add: a)
  next
    case (Inr u)
    have "\<not> (\<exists>c \<in> set (map sel df).
             (case to_dt False c of None \<Rightarrow> True | Some t \<Rightarrow> date_gt (ts_date t) today))"
      using validate_date_column_raises
              [where cells = "map sel df" and column = column and to_dt = to_dt and today = today]
            Inr
      by auto
    then have "\<exists>(column, sel) \<in> set cols. \<exists>r \<in> set df.
             (case to_dt False (sel r) of None \<Rightarrow> True | Some t \<Rightarrow> date_gt (ts_date t) today)"
      using Cons.prems a by auto
    then show ?thesis
      using Cons.IH Inr by (simp add: a)
  qed
qed

text \<open>
  Claim C6. \<open>run_quality_checks\<close> on an empty frame raises: the emptiness test is its
  first statement, so the outcome is its \<open>ValueError\<close> whatever the configuration.
\<close>

theorem empty_frame_raises:
  "fst (run_quality_checks to_dt settings rules today []) =
     Inl (ValueError ''Quality check failed: dataframe is empty.'')"
  by (simp add: run_quality_checks_def)

theorem empty_frame_raises_witness:
  "fst (run_quality_checks to_datetime_model test_settings test_rules test_today []) =
     Inl (ValueError ''Quality check failed: dataframe is empty.'')
   \<and> fst (run_quality_checks to_datetime_model test_settings test_rules test_today
            (take 4 test_flagged)) = Inr ()"
proof -
  have "fst (run_quality_checks to_datetime_model test_settings test_rules test_today
               (take 4 test_flagged)) = Inr ()"
    by code_simp
  then show ?thesis
    using empty_frame_raises [of to_datetime_model test_settings test_rules test_today]
    by simp
qed

text \<open>
  Claim C7. \<open>run_quality_checks\<close> raises whenever some record has, in one of its three
  date columns, a cell that the validator's parse (month first by default) turns into
  \<open>NaT\<close> or into a date strictly after today. A due date one day ahead is such a cell.
\<close>

theorem bad_date_raises:
  assumes "\<exists>r \<in> set df. \<exists>c \<in> {Invoice_Date r, Payment_Due_Date r, Invoice_Creation_Date r}.
             (case to_dt False c of None \<Rightarrow> True | Some t \<Rightarrow> date_gt (ts_date t) today)"
  shows "\<exists>e. fst (run_quality_checks to_dt settings rules today df) = Inl e"
proof -
  have dates: "\<exists>e. fst (validate_dates to_dt today df) = Inl e"
    unfolding validate_dates_def
    by (rule validate_date_columns_raises) (use assms in auto)
  have ne: "df \<noteq> []" using assms by auto
  obtain a d1 where s: "schema_validate (build_schema settings) df = (a, d1)" by fastforce
  then have d1: "d1 = df" using schema_validate_frame [of "build_schema settings" df] by simp
  obtain b d2 where c: "validate_currency (currency_expected settings) df = (b, d2)" by fastforce
  then have d2: "d2 = df" using validate_currency_frame [of "currency_expected settings" df] by simp
  show ?thesis
    using ne s c d1 d2 dates
    by (auto simp: run_quality_checks_def split: sum.splits)
qed

text \<open>
  The first five records of the test batch pass the schema and the currency check; the
  fifth is due on the day after the fixed day, and the run ends in the validator's
  error for a future date.
\<close>

theorem bad_date_raises_witness:
  "test_flagged ! 4 \<in> set (take 5 test_flagged)
   \<and> to_datetime_model False (Payment_Due_Date (test_flagged ! 4)) = Some (Timestamp (ymd 2024 6 2))
   \<and> toordinal (ymd 2024 6 2) = toordinal test_today + 1
   \<and> date_gt (ymd 2024 6 2) test_today
   \<and> (\<exists>e. fst (run_quality_checks to_datetime_model test_settings test_rules test_today
                 (take 5 test_flagged)) = Inl e)
   \<and> fst (run_quality_checks to_datetime_model test_settings test_rules test_today
            (take 5 test_flagged))
       = Inl (ValueError ''Future-dated values found in column Payment Due Date'')"
proof -
  have mem: "test_flagged ! 4 \<in> set (take 5 test_flagged)"
    by (simp add: in_set_conv_nth test_lengths) (rule exI [of _ 4], simp)
  have due: "to_datetime_model False (Payment_Due_Date (test_flagged ! 4))
               = Some (Timestamp (ymd 2024 6 2))"
    by code_simp
  have ord: "toordinal (ymd 2024 6 2) = toordinal test_today + 1" by code_simp
  have gt: "date_gt (ymd 2024 6 2) test_today" by code_simp
  have res: "fst (run_quality_checks to_datetime_model test_settings test_rules test_today
                    (take 5 test_flagged))
               = Inl (ValueError ''Future-dated values found in column Payment Due Date'')"
    by code_simp
  have bad: "\<exists>r \<in> set (take 5 test_flagged).
               \<exists>c \<in> {Invoice_Date r, Payment_Due_Date r, Invoice_Creation_Date r}.
                 (case to_datetime_model False c of None \<Rightarrow> True
                  | Some t \<Rightarrow> date_gt (ts_date t) test_today)"
  proof (rule bexI [OF _ mem], rule bexI [where x = "Payment_Due_Date (test_flagged ! 4)"])
    show "case to_datetime_model False (Payment_Due_Date (test_flagged ! 4)) of
            None \<Rightarrow> True | Some t \<Rightarrow> date_gt (ts_date t) test_today"
      using due gt by (simp add: Timestamp_def)
  qed simp
  have "\<exists>e. fst (run_quality_checks to_datetime_model test_settings test_rules test_today
                    (take 5 test_flagged)) = Inl e"
    using bad_date_raises
            [where to_dt = to_datetime_model and today = test_today
               and df = "take 5 test_flagged" and settings = test_settings
               and rules = test_rules]
          bad
    by blast
  with mem due ord gt res show ?thesis by simp
qed

text \<open>
  Claim C8. \<open>run_quality_checks\<close> leaves the frame it is given as it found it, whether
  it returns or raises: every step reads the frame, none writes to it, and the run
  produces no table.
\<close>

theorem quality_checks_leave_frame:
  "snd (run_quality_checks to_dt settings rules today df) = df"
proof -
  obtain a d1 where s: "schema_validate (build_schema settings) df = (a, d1)" by fastforce
  then have d1: "d1 = df" using schema_validate_frame [of "build_schema settings" df] by simp
  obtain b d2 where c: "validate_currency (currency_expected settings) df = (b, d2)" by fastforce
  then have d2: "d2 = df" using validate_currency_frame [of "currency_expected settings" df] by simp
  show ?thesis
    using s c d1 d2 validate_dates_frame [of to_dt today df]
    by (auto simp: run_quality_checks_def split: sum.splits)
qed

theorem quality_checks_leave_frame_witness:
  "fst (run_quality_checks to_datetime_model test_settings test_rules test_today test_flagged)
     = Inl (SchemaErrors [(''Payment Due Date'', 5)])
   \<and> snd (run_quality_checks to_datetime_model test_settings test_rules test_today test_flagged)
       = test_flagged
   \<and> fst (run_quality_checks to_datetime_model test_settings test_rules test_today
            (take 4 test_flagged)) = Inr ()
   \<and> snd (run_quality_checks to_datetime_model test_settings test_rules test_today
            (take 4 test_flagged)) = take 4 test_flagged"
proof -
  have "fst (run_quality_checks to_datetime_model test_settings test_rules test_today test_flagged)
          = Inl (SchemaErrors [(''Payment Due Date'', 5)])"
    by code_simp
  moreover have "fst (run_quality_checks to_datetime_model test_settings test_rules test_today
                        (take 4 test_flagged)) = Inr ()"
    by code_simp
  ultimately show ?thesis
    using quality_checks_leave_frame [of to_datetime_model test_settings test_rules test_today
        test_flagged]
      quality_checks_leave_frame [of to_datetime_model test_settings test_rules test_today
        "take 4 test_flagged"]
    by simp
qed

section \<open>The analytics\<close>









section \<open>Two readings of the due date\<close>

text \<open>
  Claim C10. \<open>apply_shortage_logic\<close> computes the days past due from the due date parsed
  with the day first, whatever \<open>date_format\<close> says, while \<open>transform_invoices\<close> computes the
  payment year from the due date parsed with the day first only when \<open>date_format\<close> asks
  for it. With a month-first configuration the string \<open>03/04/2024\<close> is therefore the 4th
  of March to the transformation and the 3rd of April to the shortage logic.
\<close>

theorem due_date_conventions_differ:
  "Days_Past_Due (shortage_row to_dt (settings\<lparr>date_format := fmt\<rparr>) rules today r) =
     (case to_dt True (Payment_Due_Date r) of
        None \<Rightarrow> 0
      | Some due \<Rightarrow> max (timedelta_days (Timestamp today) due) 0)
   \<and> Payment_Year (transform_row to_dt (settings\<lparr>date_format := fmt\<rparr>) raw) =
       map_option (\<lambda>t. date_year (ts_date t))
         (to_dt (str_lower fmt \<in> {''dayfirst'', ''dd/mm/yyyy''}) (Payment_Due_Date raw))
   \<and> transform_payment_due to_datetime_model monthfirst_settings (DateStr ''03/04/2024'')
       = Some (Timestamp (ymd 2024 3 4))
   \<and> shortage_payment_due to_datetime_model (DateStr ''03/04/2024'')
       = Some (Timestamp (ymd 2024 4 3))
   \<and> Timestamp (ymd 2024 3 4) \<noteq> Timestamp (ymd 2024 4 3)"
proof -
  have "transform_payment_due to_datetime_model monthfirst_settings (DateStr ''03/04/2024'')
          = Some (Timestamp (ymd 2024 3 4))"
    by code_simp
  moreover have "shortage_payment_due to_datetime_model (DateStr ''03/04/2024'')
                   = Some (Timestamp (ymd 2024 4 3))"
    by code_simp
  moreover have "Timestamp (ymd 2024 3 4) \<noteq> Timestamp (ymd 2024 4 3)"
    by (simp add: Timestamp_def ymd_def)
  ultimately show ?thesis
    by (simp add: shortage_row_sel transform_row_sel days_past_due_eq
          transform_payment_due_def dayfirst_setting_def)
qed

text \<open>
  With the month-first configuration and the 3rd of June 2024 as today, the invoice due
  on \<open>03/04/2024\<close> gets the payment year 2024 and 61 days past due, counted from the 3rd
  of April, and is current; from the 4th of March, the date the configuration asks for,
  it would be 91 days past due.
\<close>

theorem due_date_conventions_differ_witness:
  "date_format monthfirst_settings = ''monthfirst''
   \<and> Payment_Due_Date slash_invoice = DateStr ''03/04/2024''
   \<and> Payment_Year (transform_row to_datetime_model monthfirst_settings slash_invoice) = Some 2024
   \<and> Days_Past_Due (shortage_row to_datetime_model monthfirst_settings test_rules slash_today
        (transform_row to_datetime_model monthfirst_settings slash_invoice)) = 61
   \<and> Age_Bucket (shortage_row to_datetime_model monthfirst_settings test_rules slash_today
        (transform_row to_datetime_model monthfirst_settings slash_invoice)) = ''Current''
   \<and> timedelta_days (Timestamp slash_today) (Timestamp (ymd 2024 4 3)) = 61
   \<and> timedelta_days (Timestamp slash_today) (Timestamp (ymd 2024 3 4)) = 91"
proof -
  let ?row = "transform_row to_datetime_model monthfirst_settings slash_invoice"
  have fmt: "date_format monthfirst_settings = ''monthfirst''"
    and upd: "monthfirst_settings\<lparr>date_format := ''monthfirst''\<rparr> = monthfirst_settings"
    by (simp_all add: monthfirst_settings_def)
  have cell: "Payment_Due_Date slash_invoice = DateStr ''03/04/2024''"
    and cell': "Payment_Due_Date ?row = DateStr ''03/04/2024''"
    by code_simp+
  have year: "Payment_Year ?row = Some 2024" by code_simp
  have bucket: "Age_Bucket (shortage_row to_datetime_model monthfirst_settings test_rules
                  slash_today ?row) = ''Current''"
    by code_simp
  have d61: "timedelta_days (Timestamp slash_today) (Timestamp (ymd 2024 4 3)) = 61"
    and d91: "timedelta_days (Timestamp slash_today) (Timestamp (ymd 2024 3 4)) = 91"
    by code_simp+
  have parsed: "to_datetime_model True (DateStr ''03/04/2024'') = Some (Timestamp (ymd 2024 4 3))"
    by code_simp
  have "Days_Past_Due (shortage_row to_datetime_model monthfirst_settings test_rules slash_today
          ?row) = 61"
    using due_date_conventions_differ
            [where to_dt = to_datetime_model and settings = monthfirst_settings
               and fmt = "''monthfirst''" and rules = test_rules and today = slash_today
               and r = ?row and raw = slash_invoice]
    by (simp add: upd cell' parsed d61)
  with fmt cell year bucket d61 d91 show ?thesis by simp
qed

end
